theory Spec2Isabelle
  imports Complex_Main
begin

section \<open>JavaScript values\<close>

text \<open>
  The hook \<open>useTasks\<close> (src/hooks/useTasks.ts) keeps a list of tasks and a one-slot undo
  buffer in React state. Its types are erased at run time and \<open>normalizeTasks\<close> takes
  \<open>any[]\<close>, so values are modelled as JavaScript has them.

  A number is an IEEE double: \<open>NaN\<close>, the two infinities, or a finite value (\<open>Fin r\<close>;
  \<open>-0\<close> and \<open>+0\<close> are both \<open>Fin 0\<close>, which no operator used here tells apart). Only
  comparisons are made on numbers, so no rounding is involved.
\<close>

datatype jsnum = NaN | NegInf | Fin real | PosInf

text \<open>\<open>a < b\<close> on numbers: false as soon as one side is \<open>NaN\<close>.\<close>

fun num_lt :: "jsnum \<Rightarrow> jsnum \<Rightarrow> bool" where
  "num_lt NaN b = False"
| "num_lt NegInf b = (case b of Fin y \<Rightarrow> True | PosInf \<Rightarrow> True | NegInf \<Rightarrow> False | NaN \<Rightarrow> False)"
| "num_lt (Fin x) b = (case b of Fin y \<Rightarrow> x < y | PosInf \<Rightarrow> True | NegInf \<Rightarrow> False | NaN \<Rightarrow> False)"
| "num_lt PosInf b = False"

text \<open>\<open>a <= b\<close> and \<open>a > b\<close> on numbers.\<close>

definition num_le :: "jsnum \<Rightarrow> jsnum \<Rightarrow> bool" where
  "num_le a b = (a \<noteq> NaN \<and> b \<noteq> NaN \<and> (a = b \<or> num_lt a b))"

definition num_gt :: "jsnum \<Rightarrow> jsnum \<Rightarrow> bool" where
  "num_gt a b = num_lt b a"

text \<open>
  A value is a primitive, an array or an object. Arrays and objects carry the reference
  they are identified by (\<open>===\<close> and \<open>Set.has\<close> compare references, not contents); an
  object is the list of its own properties.
\<close>

datatype jsval =
    JUndefined
  | JNull
  | JBool bool
  | JNum jsnum
  | JStr string
  | JArr nat "jsval list"
  | JObj nat "(string \<times> jsval) list"

text \<open>ToBoolean: what \<open>!v\<close>, \<open>v ? a : b\<close> and \<open>v || w\<close> test.\<close>

fun truthy :: "jsval \<Rightarrow> bool" where
  "truthy JUndefined = False"
| "truthy JNull = False"
| "truthy (JBool b) = b"
| "truthy (JNum n) = (n \<noteq> NaN \<and> n \<noteq> Fin 0)"
| "truthy (JStr s) = (s \<noteq> [])"
| "truthy (JArr r xs) = True"
| "truthy (JObj r ps) = True"

text \<open>\<open>a === b\<close>: by value on primitives (\<open>NaN\<close> equals nothing), by reference otherwise.\<close>

fun strict_eq :: "jsval \<Rightarrow> jsval \<Rightarrow> bool" where
  "strict_eq (JNum a) v = (case v of JNum b \<Rightarrow> a \<noteq> NaN \<and> a = b | _ \<Rightarrow> False)"
| "strict_eq (JArr r xs) v = (case v of JArr r' ys \<Rightarrow> r = r' | _ \<Rightarrow> False)"
| "strict_eq (JObj r ps) v = (case v of JObj r' qs \<Rightarrow> r = r' | _ \<Rightarrow> False)"
| "strict_eq u v = (u = v)"

text \<open>SameValueZero, the equality of \<open>Set\<close>: as \<open>===\<close>, but \<open>NaN\<close> equals \<open>NaN\<close>.\<close>

fun same_value_zero :: "jsval \<Rightarrow> jsval \<Rightarrow> bool" where
  "same_value_zero (JArr r xs) v = (case v of JArr r' ys \<Rightarrow> r = r' | _ \<Rightarrow> False)"
| "same_value_zero (JObj r ps) v = (case v of JObj r' qs \<Rightarrow> r = r' | _ \<Rightarrow> False)"
| "same_value_zero u v = (u = v)"

text \<open>\<open>a ?? b\<close>: \<open>None\<close> is a nullish left operand (\<open>undefined\<close> or \<open>null\<close>).\<close>

definition nullish :: "'a option \<Rightarrow> 'a \<Rightarrow> 'a" where
  "nullish a b = (case a of None \<Rightarrow> b | Some v \<Rightarrow> v)"

section \<open>Tasks and the store\<close>

text \<open>
  The fields of \<open>Task\<close> (declared in \<open>@/types\<close>). \<open>revenue\<close> and \<open>timeTaken\<close> are numbers and
  \<open>createdAt\<close> is a string on every path that builds a task; the other fields are passed
  through from raw input by \<open>normalizeTasks\<close> and so hold any value.
\<close>

record task =
  t_id :: jsval
  t_title :: jsval
  t_revenue :: jsnum
  t_timeTaken :: jsnum
  t_priority :: jsval
  t_status :: jsval
  t_notes :: jsval
  t_createdAt :: string
  t_completedAt :: jsval

text \<open>
  The argument of \<open>addTask\<close>, \<open>Omit<Task, "id"> & { id?: string }\<close>: \<open>n_id = None\<close> is an
  omitted id. Its \<open>createdAt\<close> and \<open>completedAt\<close> are overwritten by \<open>addTask\<close> and left out.
\<close>

record new_task =
  n_id :: "string option"
  n_title :: jsval
  n_revenue :: jsnum
  n_timeTaken :: jsnum
  n_priority :: jsval
  n_status :: jsval
  n_notes :: jsval

text \<open>
  The argument of \<open>updateTask\<close>, \<open>Partial<Task>\<close>: \<open>None\<close> is a key the patch does not have.
  A key that is there holds a value of the field's type.
\<close>

record patch =
  p_id :: "jsval option"
  p_title :: "jsval option"
  p_revenue :: "jsnum option"
  p_timeTaken :: "jsnum option"
  p_priority :: "jsval option"
  p_status :: "jsval option"
  p_notes :: "jsval option"
  p_createdAt :: "string option"
  p_completedAt :: "jsval option"

text \<open>The two pieces of state the operations write: \<open>tasks\<close> and \<open>lastDeleted\<close>.\<close>

record store =
  tasks :: "task list"
  lastDeleted :: "task option"

subsection \<open>addTask\<close>

text \<open>
  The updater passed to \<open>setTasks\<close> by \<open>addTask\<close>. \<open>randomUUID k\<close> is what the \<open>k\<close>-th call
  of \<open>crypto.randomUUID()\<close> inside this updater returns, and \<open>now\<close> is
  \<open>new Date().toISOString()\<close>.
\<close>

definition addTask_updater :: "(nat \<Rightarrow> string) \<Rightarrow> string \<Rightarrow> new_task \<Rightarrow> task list \<Rightarrow> task list" where
  "addTask_updater randomUUID now task prev =
     (let (id0, k) = (case n_id task of Some i \<Rightarrow> (i, 0) | None \<Rightarrow> (randomUUID 0, Suc 0));
          exists = list_ex (\<lambda>t. strict_eq (t_id t) (JStr id0)) prev;
          id1 = (if exists then randomUUID k else id0);
          timeTaken = (if num_le (n_timeTaken task) (Fin 0) then Fin 1 else n_timeTaken task);
          createdAt = now;
          status = n_status task;
          completedAt = (if strict_eq status (JStr ''Done'') then JStr createdAt else JUndefined)
      in prev @ [\<lparr> t_id = JStr id1, t_title = n_title task, t_revenue = n_revenue task,
                   t_timeTaken = timeTaken, t_priority = n_priority task, t_status = status,
                   t_notes = n_notes task, t_createdAt = createdAt,
                   t_completedAt = completedAt \<rparr>])"

definition addTask :: "(nat \<Rightarrow> string) \<Rightarrow> string \<Rightarrow> new_task \<Rightarrow> store \<Rightarrow> store" where
  "addTask randomUUID now task s = s\<lparr> tasks := addTask_updater randomUUID now task (tasks s) \<rparr>"

subsection \<open>updateTask\<close>

text \<open>One field of \<open>{ ...t, ...patch }\<close>: a key of the patch replaces the field of \<open>t\<close>.\<close>

definition spread :: "'a \<Rightarrow> 'a option \<Rightarrow> 'a" where
  "spread old new = (case new of None \<Rightarrow> old | Some v \<Rightarrow> v)"

definition merge :: "task \<Rightarrow> patch \<Rightarrow> task" where
  "merge t p =
     \<lparr> t_id = spread (t_id t) (p_id p), t_title = spread (t_title t) (p_title p),
       t_revenue = spread (t_revenue t) (p_revenue p),
       t_timeTaken = spread (t_timeTaken t) (p_timeTaken p),
       t_priority = spread (t_priority t) (p_priority p),
       t_status = spread (t_status t) (p_status p), t_notes = spread (t_notes t) (p_notes p),
       t_createdAt = spread (t_createdAt t) (p_createdAt p),
       t_completedAt = spread (t_completedAt t) (p_completedAt p) \<rparr>"

text \<open>The callback of the first \<open>prev.map\<close>: merge the patch, stamp a transition into Done.\<close>

definition patch_one :: "string \<Rightarrow> string \<Rightarrow> patch \<Rightarrow> task \<Rightarrow> task" where
  "patch_one now i p t =
     (if \<not> strict_eq (t_id t) (JStr i) then t
      else let merged = merge t p
           in if \<not> strict_eq (t_status t) (JStr ''Done'') \<and>
                 strict_eq (t_status merged) (JStr ''Done'') \<and> \<not> truthy (t_completedAt merged)
              then merged\<lparr> t_completedAt := JStr now \<rparr>
              else merged)"

text \<open>The callback of the second map, under the comment "Ensure timeTaken remains > 0".\<close>

definition clamp_one :: "string \<Rightarrow> patch \<Rightarrow> task \<Rightarrow> task" where
  "clamp_one i p t =
     (if strict_eq (t_id t) (JStr i) \<and> num_le (nullish (p_timeTaken p) (t_timeTaken t)) (Fin 0)
      then t\<lparr> t_timeTaken := Fin 1 \<rparr>
      else t)"

definition updateTask_updater :: "string \<Rightarrow> string \<Rightarrow> patch \<Rightarrow> task list \<Rightarrow> task list" where
  "updateTask_updater now i p prev =
     (let next = map (patch_one now i p) prev
      in map (clamp_one i p) next)"

definition updateTask :: "string \<Rightarrow> string \<Rightarrow> patch \<Rightarrow> store \<Rightarrow> store" where
  "updateTask now i p s = s\<lparr> tasks := updateTask_updater now i p (tasks s) \<rparr>"

subsection \<open>deleteTask, undoDelete, clearLastDeleted\<close>

text \<open>
  \<open>prev.find(...) || null\<close> is the first task with the id, or \<open>null\<close> (\<open>None\<close>);
  \<open>setLastDeleted\<close> stores it whichever it is, and \<open>filter\<close> drops every task with the id.
\<close>

definition deleteTask :: "string \<Rightarrow> store \<Rightarrow> store" where
  "deleteTask i s =
     (let prev = tasks s;
          target = find (\<lambda>t. strict_eq (t_id t) (JStr i)) prev
      in \<lparr> tasks = filter (\<lambda>t. \<not> strict_eq (t_id t) (JStr i)) prev, lastDeleted = target \<rparr>)"

text \<open>
  \<open>undoDelete\<close> is rebuilt by \<open>useCallback\<close> for each render with the \<open>lastDeleted\<close> of
  that render in its closure: the guard and the appended task read this value \<open>seen\<close>,
  not the state at the time of the call. Only \<open>prev\<close>, in the updater, is the state the
  call is applied to.
\<close>

definition undoDelete :: "task option \<Rightarrow> store \<Rightarrow> store" where
  "undoDelete seen s =
     (case seen of
        None \<Rightarrow> s
      | Some d \<Rightarrow> \<lparr> tasks = tasks s @ [d], lastDeleted = None \<rparr>)"

text \<open>
  A call of \<open>undoDelete\<close> from the render that shows the state it is applied to: the
  closure holds the slot of that state.
\<close>

definition undoDelete_rendered :: "store \<Rightarrow> store" where
  "undoDelete_rendered s = undoDelete (lastDeleted s) s"

definition clearLastDeleted :: "store \<Rightarrow> store" where
  "clearLastDeleted s = s\<lparr> lastDeleted := None \<rparr>"

subsection \<open>The secondary load's filter\<close>

text \<open>\<open>seen.has(v)\<close> on the values added so far.\<close>

definition set_has :: "jsval list \<Rightarrow> jsval \<Rightarrow> bool" where
  "set_has seen v = list_ex (\<lambda>s. same_value_zero s v) seen"

text \<open>
  \<open>prev.filter(...)\<close> with the \<open>Set\<close> \<open>seen\<close> threaded through: a task is dropped when its id
  is falsy or already seen, and its id is added to \<open>seen\<close> when it is kept.
\<close>

fun dedup_from :: "jsval list \<Rightarrow> task list \<Rightarrow> task list" where
  "dedup_from seen [] = []"
| "dedup_from seen (t # ts) =
     (if \<not> truthy (t_id t) \<or> set_has seen (t_id t) then dedup_from seen ts
      else t # dedup_from (t_id t # seen) ts)"

definition dedup :: "task list \<Rightarrow> task list" where
  "dedup prev = dedup_from [] prev"

section \<open>Normalization of raw input\<close>

text \<open>A callback that throws ends \<open>normalizeTasks\<close>; the two errors it can throw.\<close>

datatype error = TypeError | RangeError

definition bindE :: "error + 'a \<Rightarrow> ('a \<Rightarrow> error + 'b) \<Rightarrow> error + 'b" where
  "bindE m f = (case m of Inl e \<Rightarrow> Inl e | Inr v \<Rightarrow> f v)"

text \<open>
  What the code takes from the JavaScript platform and this development does not compute:
  \<^item> \<open>stringToNumber\<close>: the number a string converts to (\<open>NaN\<close> when it is not numeric);
  \<^item> \<open>objToString\<close>: the string an array or object converts to (ToPrimitive), or the
    TypeError of an object that has no callable \<open>toString\<close> and \<open>valueOf\<close>;
  \<^item> \<open>dateParse\<close>: the time value, in milliseconds, that a date string parses to
    (\<open>None\<close> when it does not parse);
  \<^item> \<open>toISOString\<close>: the ISO-8601 string of a valid time value.
\<close>

record platform =
  stringToNumber :: "string \<Rightarrow> jsnum"
  objToString :: "jsval \<Rightarrow> error + string"
  dateParse :: "string \<Rightarrow> int option"
  toISOString :: "int \<Rightarrow> string"

text \<open>\<open>Number(v)\<close>.\<close>

fun toNumber :: "platform \<Rightarrow> jsval \<Rightarrow> error + jsnum" where
  "toNumber P JUndefined = Inr NaN"
| "toNumber P JNull = Inr (Fin 0)"
| "toNumber P (JBool b) = Inr (Fin (if b then 1 else 0))"
| "toNumber P (JNum n) = Inr n"
| "toNumber P (JStr s) = Inr (stringToNumber P s)"
| "toNumber P (JArr r xs) = bindE (objToString P (JArr r xs)) (\<lambda>s. Inr (stringToNumber P s))"
| "toNumber P (JObj r ps) = bindE (objToString P (JObj r ps)) (\<lambda>s. Inr (stringToNumber P s))"

text \<open>
  A \<open>Date\<close> is its time value, \<open>None\<close> for an Invalid Date. \<open>timeClip\<close> is the time value of
  \<open>new Date(n)\<close> for a number \<open>n\<close>: integral, and at most 8.64e15 ms from the epoch.
\<close>

fun timeClip :: "jsnum \<Rightarrow> int option" where
  "timeClip (Fin r) =
     (if \<bar>r\<bar> \<le> 8640000000000000 then Some (if r < 0 then \<lceil>r\<rceil> else \<lfloor>r\<rfloor>) else None)"
| "timeClip n = None"

text \<open>\<open>new Date(v)\<close> for one argument that is not a \<open>Date\<close>.\<close>

fun newDate :: "platform \<Rightarrow> jsval \<Rightarrow> error + int option" where
  "newDate P (JStr s) = Inr (dateParse P s)"
| "newDate P (JArr r xs) = bindE (objToString P (JArr r xs)) (\<lambda>s. Inr (dateParse P s))"
| "newDate P (JObj r ps) = bindE (objToString P (JObj r ps)) (\<lambda>s. Inr (dateParse P s))"
| "newDate P v = bindE (toNumber P v) (\<lambda>n. Inr (timeClip n))"

text \<open>\<open>d.toISOString()\<close>: a RangeError on an Invalid Date.\<close>

definition toISO :: "platform \<Rightarrow> int option \<Rightarrow> error + string" where
  "toISO P d = (case d of None \<Rightarrow> Inl RangeError | Some ms \<Rightarrow> Inr (toISOString P ms))"

text \<open>
  \<open>t.k\<close> for the keys read here. Only an object has them (no prototype defines one of
  them); reading a property of \<open>undefined\<close> or \<open>null\<close> is a TypeError.
\<close>

definition property :: "jsval \<Rightarrow> string \<Rightarrow> jsval" where
  "property t k = (case t of JObj r ps \<Rightarrow> (case map_of ps k of Some v \<Rightarrow> v | None \<Rightarrow> JUndefined)
               | _ \<Rightarrow> JUndefined)"

definition getProp :: "jsval \<Rightarrow> string \<Rightarrow> error + jsval" where
  "getProp t k = (if t = JUndefined \<or> t = JNull then Inl TypeError else Inr (property t k))"

text \<open>
  The callback of \<open>map\<close> in \<open>normalizeTasks\<close>, in the order the source evaluates it; \<open>now\<close>
  is \<open>Date.now()\<close>. After the first read, \<open>t\<close> is not nullish and the other reads cannot
  fail. The sums and products of time values are integers, and a double holds every
  integer in the range of valid dates exactly, so integer arithmetic gives the same dates.
\<close>

definition normalizeTask :: "platform \<Rightarrow> int \<Rightarrow> nat \<Rightarrow> jsval \<Rightarrow> error + task" where
  "normalizeTask P now idx t =
     bindE (getProp t ''createdAt'') (\<lambda>rawCreated.
     bindE (if truthy rawCreated then newDate P rawCreated
            else Inr (timeClip (Fin (of_int (now - (int idx + 1) * 24 * 3600 * 1000))))) (\<lambda>created.
     bindE (if truthy (property t ''completedAt'') then Inr (property t ''completedAt'')
            else if strict_eq (property t ''status'') (JStr ''Done'')
            then bindE (toISO P (case created of None \<Rightarrow> None
                                 | Some ms \<Rightarrow> timeClip (Fin (of_int (ms + 24 * 3600 * 1000)))))
                   (\<lambda>s. Inr (JStr s))
            else Inr JUndefined) (\<lambda>completed.
     bindE (toNumber P (property t ''revenue'')) (\<lambda>revenue.
     bindE (toNumber P (property t ''timeTaken'')) (\<lambda>n.
     bindE (if num_gt n (Fin 0) then toNumber P (property t ''timeTaken'') else Inr (Fin 1)) (\<lambda>timeTaken.
     bindE (toISO P created) (\<lambda>createdAt.
       Inr \<lparr> t_id = property t ''id'', t_title = property t ''title'',
             t_revenue = nullish (Some revenue) (Fin 0), t_timeTaken = timeTaken,
             t_priority = property t ''priority'', t_status = property t ''status'',
             t_notes = property t ''notes'', t_createdAt = createdAt,
             t_completedAt = completed \<rparr>)))))))"

text \<open>\<open>xs.map((t, idx) => f(idx, t))\<close> from index \<open>i\<close> on, stopping at the first throw.\<close>

fun map_indexed :: "(nat \<Rightarrow> 'a \<Rightarrow> error + 'b) \<Rightarrow> nat \<Rightarrow> 'a list \<Rightarrow> error + 'b list" where
  "map_indexed f i [] = Inr []"
| "map_indexed f i (x # xs) =
     bindE (f i x) (\<lambda>y. bindE (map_indexed f (Suc i) xs) (\<lambda>ys. Inr (y # ys)))"

text \<open>\<open>Array.isArray(v)\<close>, and the elements of an array.\<close>

definition isArray :: "jsval \<Rightarrow> bool" where
  "isArray v = (case v of JArr r xs \<Rightarrow> True | _ \<Rightarrow> False)"

definition entries :: "jsval \<Rightarrow> jsval list" where
  "entries v = (case v of JArr r xs \<Rightarrow> xs | _ \<Rightarrow> [])"

text \<open>\<open>(Array.isArray(input) ? input : []).map(...)\<close>.\<close>

definition normalizeTasks :: "platform \<Rightarrow> int \<Rightarrow> jsval \<Rightarrow> error + task list" where
  "normalizeTasks P now input =
     map_indexed (normalizeTask P now) 0 (if isArray input then entries input else [])"

text \<open>The spec's "record-shaped" entry: a JSON object.\<close>

definition record_shaped :: "jsval \<Rightarrow> bool" where
  "record_shaped v = (case v of JObj r ps \<Rightarrow> True | _ \<Rightarrow> False)"

section \<open>Example data\<close>

text \<open>Tasks, inputs and the empty patch that the evaluated instances below are built from.\<close>

abbreviation sample_task :: "jsval \<Rightarrow> jsnum \<Rightarrow> jsval \<Rightarrow> jsval \<Rightarrow> task" where
  "sample_task i tt st done \<equiv>
     \<lparr> t_id = i, t_title = JStr ''Call'', t_revenue = Fin 100, t_timeTaken = tt,
       t_priority = JStr ''High'', t_status = st, t_notes = JUndefined,
       t_createdAt = ''2025-01-01T00:00:00.000Z'', t_completedAt = done \<rparr>"

abbreviation sample_input :: "string option \<Rightarrow> jsnum \<Rightarrow> jsval \<Rightarrow> new_task" where
  "sample_input i tt st \<equiv>
     \<lparr> n_id = i, n_title = JStr ''Call'', n_revenue = Fin 100, n_timeTaken = tt,
       n_priority = JStr ''High'', n_status = st, n_notes = JUndefined \<rparr>"

abbreviation empty_patch :: patch where
  "empty_patch \<equiv>
     \<lparr> p_id = None, p_title = None, p_revenue = None, p_timeTaken = None, p_priority = None,
       p_status = None, p_notes = None, p_createdAt = None, p_completedAt = None \<rparr>"

section \<open>Shared lemmas\<close>

lemma strict_eq_JStr: "strict_eq v (JStr s) = (v = JStr s)"
  by (cases v) simp_all

lemma same_value_zero_refl: "same_value_zero v v"
  by (cases v) simp_all

lemma find_none_filter:
  "\<not> list_ex P xs \<Longrightarrow> find P xs = None \<and> filter (\<lambda>t. \<not> P t) xs = xs"
  by (induction xs) simp_all

lemma find_SomeD: "find P xs = Some a \<Longrightarrow> P a \<and> a \<in> set xs"
  by (induction xs) (auto split: if_splits)

lemma count_filtered_out: "P a \<Longrightarrow> count_list (filter (\<lambda>t. \<not> P t) xs) a = 0"
  by (induction xs) auto

lemma dedup_from_idem: "dedup_from seen (dedup_from seen xs) = dedup_from seen xs"
  by (induction xs arbitrary: seen) simp_all

lemma dedup_idem: "dedup (dedup xs) = dedup xs"
  by (simp add: dedup_def dedup_from_idem)

lemma dedup_funpow: "(dedup ^^ Suc n) xs = dedup xs"
  by (induction n) (simp_all add: dedup_idem)

lemma dedup_from_truthy: "t \<in> set (dedup_from seen xs) \<Longrightarrow> truthy (t_id t)"
  by (induction xs arbitrary: seen) (auto split: if_splits)

lemma dedup_from_keeps:
  "t \<in> set xs \<Longrightarrow> truthy (t_id t) \<Longrightarrow> \<not> set_has seen (t_id t) \<Longrightarrow>
   length (filter (\<lambda>u. same_value_zero (t_id u) (t_id t)) xs) = 1 \<Longrightarrow>
   t \<in> set (dedup_from seen xs)"
proof (induction xs arbitrary: seen)
  case Nil
  then show ?case by simp
next
  case (Cons x xs)
  show ?case
  proof (cases "x = t")
    case True
    with Cons.prems show ?thesis by simp
  next
    case False
    with Cons.prems have in_tl: "t \<in> set xs" by simp
    then have "filter (\<lambda>u. same_value_zero (t_id u) (t_id t)) xs \<noteq> []"
      unfolding filter_empty_conv using same_value_zero_refl by blast
    then have pos: "0 < length (filter (\<lambda>u. same_value_zero (t_id u) (t_id t)) xs)"
      by simp
    with Cons.prems(4) have other: "\<not> same_value_zero (t_id x) (t_id t)"
      by (auto split: if_splits)
    with Cons.prems(4) have one: "length (filter (\<lambda>u. same_value_zero (t_id u) (t_id t)) xs) = 1"
      by simp
    from other Cons.prems(3) have unseen: "\<not> set_has (t_id x # seen) (t_id t)"
      by (simp add: set_has_def)
    show ?thesis
      using Cons.IH[OF in_tl Cons.prems(2) Cons.prems(3) one]
            Cons.IH[OF in_tl Cons.prems(2) unseen one]
      by simp
  qed
qed

lemma update_nth:
  "k < length prev \<Longrightarrow>
   updateTask_updater now i p prev ! k = clamp_one i p (patch_one now i p (prev ! k))"
  by (simp add: updateTask_updater_def)

lemma clamp_completedAt: "t_completedAt (clamp_one i p t) = t_completedAt t"
  by (simp add: clamp_one_def)

text \<open>
  What \<open>addTask\<close> and \<open>updateTask\<close> do keep of \<open>timeTaken > 0\<close>: it holds for the created
  task when the given \<open>timeTaken\<close> is not \<open>NaN\<close>, and for the patched task when the patch
  leaves the id alone and the effective \<open>timeTaken\<close> is not \<open>NaN\<close>.
\<close>

lemma num_gt_or_le: "x \<noteq> NaN \<Longrightarrow> \<not> num_le x (Fin 0) \<Longrightarrow> num_gt x (Fin 0)"
  by (cases x) (auto simp: num_le_def num_gt_def)

lemma addTask_timeTaken:
  "n_timeTaken task \<noteq> NaN \<Longrightarrow>
   num_gt (t_timeTaken (last (addTask_updater randomUUID now task prev))) (Fin 0)"
  by (auto simp: addTask_updater_def Let_def num_gt_or_le split: prod.splits)
     (simp add: num_gt_def)

lemma updateTask_timeTaken:
  assumes "strict_eq (t_id t) (JStr i)" and "p_id p = None"
    and "spread (t_timeTaken t) (p_timeTaken p) \<noteq> NaN"
  shows "num_gt (t_timeTaken (clamp_one i p (patch_one now i p t))) (Fin 0)"
proof -
  have one: "num_gt (Fin 1) (Fin 0)"
    by (simp add: num_gt_def)
  from assms show ?thesis
    by (cases "p_timeTaken p")
       (auto simp: clamp_one_def patch_one_def merge_def spread_def nullish_def Let_def one
          intro: num_gt_or_le)
qed

lemma map_indexed_length: "map_indexed f i xs = Inr out \<Longrightarrow> length out = length xs"
  by (induction xs arbitrary: i out) (auto simp: bindE_def split: sum.splits)

lemma map_indexed_fails:
  "x \<in> set xs \<Longrightarrow> (\<And>j. isl (f j x)) \<Longrightarrow> isl (map_indexed f i xs)"
proof (induction xs arbitrary: i)
  case Nil
  then show ?case by simp
next
  case (Cons a xs)
  show ?case
  proof (cases "f i a")
    case (Inl e)
    then show ?thesis by (simp add: bindE_def)
  next
    case (Inr y)
    with Cons.prems(2)[of i] have "a \<noteq> x" by auto
    with Cons.prems(1) have "x \<in> set xs" by simp
    from Cons.IH[OF this Cons.prems(2)] have "isl (map_indexed f (Suc i) xs)" .
    with Inr show ?thesis
      by (cases "map_indexed f (Suc i) xs") (simp_all add: bindE_def)
  qed
qed

lemma normalizeTask_null: "normalizeTask P now idx JNull = Inl TypeError"
  by (simp add: normalizeTask_def getProp_def bindE_def)

text \<open>
  A number as an entry is not skipped: \<open>normalizeTasks\<close> of the JSON array \<open>[5]\<close> is one task,
  whose fields are \<open>undefined\<close> but for the coerced and synthesized ones.
\<close>

lemma normalizeTasks_number_entry:
  "normalizeTasks P 1700000000000 (JArr 0 [JNum (Fin 5)]) =
     Inr [\<lparr> t_id = JUndefined, t_title = JUndefined, t_revenue = NaN, t_timeTaken = Fin 1,
           t_priority = JUndefined, t_status = JUndefined, t_notes = JUndefined,
           t_createdAt = toISOString P 1699913600000, t_completedAt = JUndefined \<rparr>]"
  by (simp add: normalizeTasks_def isArray_def entries_def normalizeTask_def bindE_def
      getProp_def property_def toISO_def nullish_def num_gt_def)

section \<open>The undo slot\<close>

text \<open>
  C1, as the spec states it: \<open>deleteTask\<close> with an id that no task has leaves the collection
  and the undo slot as they were. The slot does not survive: with one task \<open>a\<close> in the
  collection and a deleted task \<open>d\<close> in the slot, deleting the unknown id \<open>zzz\<close> empties
  the slot.
\<close>

theorem deleteTask_absent_keeps_slot_counterexample:
  "\<not> list_ex (\<lambda>t. strict_eq (t_id t) (JStr ''zzz''))
        [sample_task (JStr ''a'') (Fin 5) (JStr ''Todo'') JUndefined]
   \<and> lastDeleted (deleteTask ''zzz''
        \<lparr> tasks = [sample_task (JStr ''a'') (Fin 5) (JStr ''Todo'') JUndefined],
          lastDeleted = Some (sample_task (JStr ''d'') (Fin 3) (JStr ''Todo'') JUndefined) \<rparr>)
       = None"
  by (simp add: deleteTask_def)

text \<open>
  C1, amended: \<open>deleteTask\<close> with an id that no task of the collection has leaves the
  collection unchanged and empties the undo slot, whatever it held; nothing is raised
  (\<open>deleteTask\<close> is a total function).
\<close>

theorem deleteTask_absent_clears_slot:
  assumes "\<not> list_ex (\<lambda>t. strict_eq (t_id t) (JStr i)) (tasks s)"
  shows "deleteTask i s = \<lparr> tasks = tasks s, lastDeleted = None \<rparr>"
  using find_none_filter[OF assms] by (simp add: deleteTask_def)

theorem deleteTask_absent_clears_slot_witness:
  "deleteTask ''zzz''
     \<lparr> tasks = [sample_task (JStr ''a'') (Fin 5) (JStr ''Todo'') JUndefined],
       lastDeleted = Some (sample_task (JStr ''d'') (Fin 3) (JStr ''Todo'') JUndefined) \<rparr>
   = \<lparr> tasks = [sample_task (JStr ''a'') (Fin 5) (JStr ''Todo'') JUndefined],
       lastDeleted = None \<rparr>"
  using deleteTask_absent_clears_slot[of "''zzz''"
      "\<lparr> tasks = [sample_task (JStr ''a'') (Fin 5) (JStr ''Todo'') JUndefined],
         lastDeleted = Some (sample_task (JStr ''d'') (Fin 3) (JStr ''Todo'') JUndefined) \<rparr>"]
  by simp

text \<open>
  What \<open>undoDelete\<close> does keep: with a task in the slot it saw, it appends that very task
  to the end of the collection and empties the slot; with an empty slot seen, it changes
  nothing; and after \<open>deleteTask\<close> of an id that a task \<open>a\<close> is the first to have, two calls,
  each from a render that shows the state left by the call before, leave \<open>a\<close> in the
  collection exactly once.
\<close>

lemma undoDelete_seen:
  "undoDelete (Some d) s = \<lparr> tasks = tasks s @ [d], lastDeleted = None \<rparr>"
  "undoDelete None s = s"
  by (simp_all add: undoDelete_def)

lemma undoDelete_rendered_twice:
  assumes found: "find (\<lambda>t. strict_eq (t_id t) (JStr i)) (tasks s) = Some a"
  shows "tasks (undoDelete_rendered (undoDelete_rendered (deleteTask i s)))
           = filter (\<lambda>t. \<not> strict_eq (t_id t) (JStr i)) (tasks s) @ [a]"
    and "lastDeleted (undoDelete_rendered (undoDelete_rendered (deleteTask i s))) = None"
    and "count_list (tasks (undoDelete_rendered (undoDelete_rendered (deleteTask i s)))) a = 1"
proof -
  from found show "tasks (undoDelete_rendered (undoDelete_rendered (deleteTask i s)))
      = filter (\<lambda>t. \<not> strict_eq (t_id t) (JStr i)) (tasks s) @ [a]"
    by (simp add: deleteTask_def undoDelete_rendered_def undoDelete_def)
  from found show "lastDeleted (undoDelete_rendered (undoDelete_rendered (deleteTask i s))) = None"
    by (simp add: deleteTask_def undoDelete_rendered_def undoDelete_def)
  from find_SomeD[OF found] have "strict_eq (t_id a) (JStr i)"
    by simp
  then have "count_list (filter (\<lambda>t. \<not> strict_eq (t_id t) (JStr i)) (tasks s)) a = 0"
    by (rule count_filtered_out)
  with found show "count_list (tasks (undoDelete_rendered (undoDelete_rendered (deleteTask i s)))) a = 1"
    by (simp add: deleteTask_def undoDelete_rendered_def undoDelete_def)
qed

text \<open>
  C8: \<open>undoDelete\<close> appends the slot's task unchanged and empties the slot, and is a no-op
  on an empty slot, so that \<open>deleteTask\<close> of a present task followed by two calls of
  \<open>undoDelete\<close> leaves that task in the collection exactly once. The code does not keep
  the last part. The guard \<open>if (!lastDeleted) return\<close> reads the closure of the render, so
  two calls from one render both pass it: with tasks \<open>a\<close> and \<open>b\<close>, after \<open>deleteTask\<close> of
  \<open>a\<close> the render sees \<open>a\<close> in the slot, and two calls of its \<open>undoDelete\<close> append \<open>a\<close>
  twice, although the first has emptied the slot.
\<close>

theorem undoDelete_twice_from_one_render:
  "lastDeleted (deleteTask ''a''
       \<lparr> tasks = [sample_task (JStr ''a'') (Fin 5) (JStr ''Todo'') JUndefined,
                  sample_task (JStr ''b'') (Fin 2) (JStr ''Todo'') JUndefined],
         lastDeleted = None \<rparr>)
     = Some (sample_task (JStr ''a'') (Fin 5) (JStr ''Todo'') JUndefined)
   \<and> undoDelete (Some (sample_task (JStr ''a'') (Fin 5) (JStr ''Todo'') JUndefined))
       (undoDelete (Some (sample_task (JStr ''a'') (Fin 5) (JStr ''Todo'') JUndefined))
         (deleteTask ''a''
           \<lparr> tasks = [sample_task (JStr ''a'') (Fin 5) (JStr ''Todo'') JUndefined,
                      sample_task (JStr ''b'') (Fin 2) (JStr ''Todo'') JUndefined],
             lastDeleted = None \<rparr>))
     = \<lparr> tasks = [sample_task (JStr ''b'') (Fin 2) (JStr ''Todo'') JUndefined,
                  sample_task (JStr ''a'') (Fin 5) (JStr ''Todo'') JUndefined,
                  sample_task (JStr ''a'') (Fin 5) (JStr ''Todo'') JUndefined],
         lastDeleted = None \<rparr>
   \<and> count_list
       [sample_task (JStr ''b'') (Fin 2) (JStr ''Todo'') JUndefined,
        sample_task (JStr ''a'') (Fin 5) (JStr ''Todo'') JUndefined,
        sample_task (JStr ''a'') (Fin 5) (JStr ''Todo'') JUndefined]
       (sample_task (JStr ''a'') (Fin 5) (JStr ''Todo'') JUndefined) = 2"
  by (simp add: deleteTask_def undoDelete_def)

section \<open>The secondary load's filter\<close>

text \<open>
  C2, as the spec states it: the filter is idempotent and never removes a task whose id is
  unique in the collection. The second half fails: a collection of one task whose id is
  the empty string has that id once, and the filter removes the task.
\<close>

theorem dedup_removes_unique_id_counterexample:
  "length (filter (\<lambda>u. same_value_zero (t_id u)
                    (t_id (sample_task (JStr '''') (Fin 5) (JStr ''Todo'') JUndefined)))
            [sample_task (JStr '''') (Fin 5) (JStr ''Todo'') JUndefined]) = 1
   \<and> dedup [sample_task (JStr '''') (Fin 5) (JStr ''Todo'') JUndefined] = []"
  by (simp add: dedup_def)

text \<open>
  C2, amended: for every collection, applying the filter once or any number of times more
  gives the same result, and the filter never removes a task whose id is truthy and unique
  within the collection.
\<close>

theorem dedup_idempotent_keeps_unique_truthy:
  "(dedup ^^ Suc n) xs = dedup xs
   \<and> (t \<in> set xs \<and> truthy (t_id t) \<and>
      length (filter (\<lambda>u. same_value_zero (t_id u) (t_id t)) xs) = 1
      \<longrightarrow> t \<in> set (dedup xs))"
proof (intro conjI impI)
  show "(dedup ^^ Suc n) xs = dedup xs"
    by (rule dedup_funpow)
next
  assume h: "t \<in> set xs \<and> truthy (t_id t) \<and>
      length (filter (\<lambda>u. same_value_zero (t_id u) (t_id t)) xs) = 1"
  have "\<not> set_has [] (t_id t)"
    by (simp add: set_has_def)
  with h show "t \<in> set (dedup xs)"
    unfolding dedup_def by (intro dedup_from_keeps) simp_all
qed

theorem dedup_idempotent_keeps_unique_truthy_witness:
  "(dedup ^^ Suc 2) [sample_task (JStr ''a'') (Fin 5) (JStr ''Todo'') JUndefined,
                     sample_task (JStr ''b'') (Fin 2) (JStr ''Todo'') JUndefined,
                     sample_task (JStr ''a'') (Fin 7) (JStr ''Todo'') JUndefined]
     = dedup [sample_task (JStr ''a'') (Fin 5) (JStr ''Todo'') JUndefined,
              sample_task (JStr ''b'') (Fin 2) (JStr ''Todo'') JUndefined,
              sample_task (JStr ''a'') (Fin 7) (JStr ''Todo'') JUndefined]
   \<and> sample_task (JStr ''b'') (Fin 2) (JStr ''Todo'') JUndefined
       \<in> set (dedup [sample_task (JStr ''a'') (Fin 5) (JStr ''Todo'') JUndefined,
                     sample_task (JStr ''b'') (Fin 2) (JStr ''Todo'') JUndefined,
                     sample_task (JStr ''a'') (Fin 7) (JStr ''Todo'') JUndefined])"
  using dedup_idempotent_keeps_unique_truthy[of 2
      "[sample_task (JStr ''a'') (Fin 5) (JStr ''Todo'') JUndefined,
        sample_task (JStr ''b'') (Fin 2) (JStr ''Todo'') JUndefined,
        sample_task (JStr ''a'') (Fin 7) (JStr ''Todo'') JUndefined]"
      "sample_task (JStr ''b'') (Fin 2) (JStr ''Todo'') JUndefined"]
  by simp

text \<open>
  C10: for every collection, no task with a falsy id (\<open>undefined\<close>, \<open>null\<close>, the empty
  string, \<open>0\<close>, \<open>NaN\<close>, \<open>false\<close>) is left by the filter, whether or not an earlier task has
  the same id.
\<close>

theorem dedup_removes_falsy_ids:
  "\<not> truthy (t_id t) \<Longrightarrow> t \<notin> set (dedup xs)"
  unfolding dedup_def using dedup_from_truthy by blast

theorem dedup_removes_falsy_ids_witness:
  "\<not> truthy (JStr '''')
   \<and> sample_task (JStr '''') (Fin 5) (JStr ''Todo'') JUndefined
       \<notin> set (dedup [sample_task (JStr '''') (Fin 5) (JStr ''Todo'') JUndefined,
                     sample_task (JStr ''b'') (Fin 2) (JStr ''Todo'') JUndefined])"
  using dedup_removes_falsy_ids[of
      "sample_task (JStr '''') (Fin 5) (JStr ''Todo'') JUndefined"
      "[sample_task (JStr '''') (Fin 5) (JStr ''Todo'') JUndefined,
        sample_task (JStr ''b'') (Fin 2) (JStr ''Todo'') JUndefined]"]
  by simp

section \<open>Creating and updating\<close>

text \<open>
  C5: \<open>timeTaken > 0\<close> holds for every task after \<open>addTask\<close> and after every \<open>updateTask\<close>.
  The code does not keep it. (1) \<open>addTask\<close> tests \<open>task.timeTaken <= 0\<close>, which \<open>NaN\<close> does
  not satisfy, so a task created with \<open>timeTaken = NaN\<close> keeps \<open>NaN\<close>, and \<open>NaN > 0\<close> is
  false. (2) The second pass of \<open>updateTask\<close> looks for the task under the id it was called
  with, so a patch that also changes the id leaves its \<open>timeTaken = 0\<close> in place.
\<close>

theorem timeTaken_positive_fails:
  "map t_timeTaken (addTask_updater (\<lambda>k. ''7d1c'') ''2025-01-02T00:00:00.000Z''
       (sample_input None NaN (JStr ''Todo'')) []) = [NaN]
   \<and> \<not> num_gt NaN (Fin 0)
   \<and> map t_timeTaken (updateTask_updater ''2025-01-02T00:00:00.000Z'' ''a''
       (empty_patch\<lparr> p_id := Some (JStr ''b''), p_timeTaken := Some (Fin 0) \<rparr>)
       [sample_task (JStr ''a'') (Fin 5) (JStr ''Todo'') JUndefined]) = [Fin 0]
   \<and> \<not> num_gt (Fin 0) (Fin 0)"
  by (simp add: addTask_updater_def updateTask_updater_def patch_one_def clamp_one_def
      merge_def spread_def nullish_def num_le_def num_gt_def)

text \<open>
  C6: no two tasks of the collection share an id in any state that the operations reach.
  The code reaches one: from the empty store, create a task with id \<open>x\<close>, delete \<open>x\<close>,
  create another task with id \<open>x\<close> (no collision: the first is in the undo slot), and
  \<open>undoDelete\<close> from the render that shows this state, which appends the first without
  the check that \<open>addTask\<close> makes.
\<close>

theorem undoDelete_duplicates_id:
  "map t_id (tasks (undoDelete_rendered
     (addTask (\<lambda>k. ''9e2f'') ''2025-01-03T00:00:00.000Z''
        (sample_input (Some ''x'') (Fin 2) (JStr ''Todo''))
     (deleteTask ''x''
     (addTask (\<lambda>k. ''7d1c'') ''2025-01-02T00:00:00.000Z''
        (sample_input (Some ''x'') (Fin 1) (JStr ''Todo''))
        \<lparr> tasks = [], lastDeleted = None \<rparr>)))))
   = [JStr ''x'', JStr ''x'']"
  by (simp add: addTask_def addTask_updater_def deleteTask_def undoDelete_rendered_def
      undoDelete_def num_le_def)

text \<open>
  C7: let \<open>updateTask\<close> be called with the id of the task at position \<open>k\<close>. If that task's
  status is not Done, the merged status is Done and the merged record has no \<open>completedAt\<close>
  (none, or an empty one), then the task's \<open>completedAt\<close> becomes the current time. If the
  task's status is already Done and the patch has no \<open>completedAt\<close>, the task's
  \<open>completedAt\<close> stays as it was.
\<close>

theorem updateTask_completedAt:
  assumes "k < length prev" and "strict_eq (t_id (prev ! k)) (JStr i)"
  shows "(\<not> strict_eq (t_status (prev ! k)) (JStr ''Done'') \<and>
          strict_eq (t_status (merge (prev ! k) p)) (JStr ''Done'') \<and>
          \<not> truthy (t_completedAt (merge (prev ! k) p))
          \<longrightarrow> t_completedAt (updateTask_updater now i p prev ! k) = JStr now)
       \<and> (strict_eq (t_status (prev ! k)) (JStr ''Done'') \<and> p_completedAt p = None
          \<longrightarrow> t_completedAt (updateTask_updater now i p prev ! k) = t_completedAt (prev ! k))"
  using assms
  by (simp add: update_nth clamp_completedAt patch_one_def merge_def spread_def)

theorem updateTask_completedAt_witness:
  "t_completedAt (updateTask_updater ''2025-02-01T00:00:00.000Z'' ''a''
       (empty_patch\<lparr> p_status := Some (JStr ''Done'') \<rparr>)
       [sample_task (JStr ''a'') (Fin 5) (JStr ''In Progress'') JUndefined] ! 0)
     = JStr ''2025-02-01T00:00:00.000Z''
   \<and> t_completedAt (updateTask_updater ''2025-02-01T00:00:00.000Z'' ''a''
       (empty_patch\<lparr> p_status := Some (JStr ''Done'') \<rparr>)
       [sample_task (JStr ''a'') (Fin 5) (JStr ''Done'') (JStr ''2025-01-02T00:00:00.000Z'')] ! 0)
     = JStr ''2025-01-02T00:00:00.000Z''"
  using
    updateTask_completedAt[of 0
      "[sample_task (JStr ''a'') (Fin 5) (JStr ''In Progress'') JUndefined]" "''a''"
      "empty_patch\<lparr> p_status := Some (JStr ''Done'') \<rparr>" "''2025-02-01T00:00:00.000Z''"]
    updateTask_completedAt[of 0
      "[sample_task (JStr ''a'') (Fin 5) (JStr ''Done'') (JStr ''2025-01-02T00:00:00.000Z'')]" "''a''"
      "empty_patch\<lparr> p_status := Some (JStr ''Done'') \<rparr>" "''2025-02-01T00:00:00.000Z''"]
  by (simp add: merge_def spread_def)

text \<open>
  What \<open>addTask\<close> does keep when the id of a create, supplied or generated, is the id of
  a task of the collection: the call is not rejected, and the new task is appended under
  the identifier that the next call of \<open>crypto.randomUUID()\<close> returns, whatever it is.
\<close>

lemma addTask_collision_regenerates:
  assumes "list_ex (\<lambda>t. strict_eq (t_id t) (JStr (nullish (n_id task) (randomUUID 0)))) prev"
  shows "butlast (addTask_updater randomUUID now task prev) = prev"
    and "length (addTask_updater randomUUID now task prev) = Suc (length prev)"
    and "t_id (last (addTask_updater randomUUID now task prev))
          = JStr (randomUUID (case n_id task of Some i \<Rightarrow> 0 | None \<Rightarrow> 1))"
  using assms
  by (auto simp: addTask_updater_def Let_def nullish_def split: option.splits)


section \<open>Normalization\<close>

text \<open>
  C3: the revenue of a normalized record is a number, and is 0 when the raw value does not
  coerce to one. The code writes \<open>Number(t.revenue) ?? 0\<close>, and \<open>Number\<close> never returns
  \<open>undefined\<close> or \<open>null\<close>: a raw value that does not coerce gives \<open>NaN\<close>, which \<open>??\<close> lets
  through. For the raw record \<open>{"id": "a", "title": "Call", "timeTaken": 2, "status": "Todo"}\<close>,
  which has no revenue, the normalized revenue is \<open>NaN\<close>, on every platform.
\<close>

theorem normalizeTasks_revenue_NaN:
  "map_sum id (map t_revenue) (normalizeTasks P 1700000000000
     (JArr 0 [JObj 1 [(''id'', JStr ''a''), (''title'', JStr ''Call''),
                      (''timeTaken'', JNum (Fin 2)), (''status'', JStr ''Todo'')]]))
   = Inr [NaN]"
  by (simp add: normalizeTasks_def isArray_def entries_def normalizeTask_def bindE_def
      getProp_def property_def toISO_def nullish_def num_gt_def)

text \<open>
  C4, as the spec states it: whenever normalization returns, it has produced a task for
  the record-shaped entries of the input only. It skips nothing: the array \<open>[5]\<close> has no
  record-shaped entry, and its normalization is one task
  (\<open>normalizeTasks_number_entry\<close>).
\<close>

theorem normalizeTasks_skips_counterexample:
  "\<not> (\<forall>P now input out. normalizeTasks P now input = Inr out \<longrightarrow>
        length out = length (filter record_shaped (entries input)))"
proof
  assume skips: "\<forall>P now input out. normalizeTasks P now input = Inr out \<longrightarrow>
        length out = length (filter record_shaped (entries input))"
  obtain P :: platform where True
    by simp
  from skips normalizeTasks_number_entry[of P]
  have "length [\<lparr> t_id = JUndefined, t_title = JUndefined, t_revenue = NaN, t_timeTaken = Fin 1,
           t_priority = JUndefined, t_status = JUndefined, t_notes = JUndefined,
           t_createdAt = toISOString P 1699913600000, t_completedAt = JUndefined \<rparr>]
      = length (filter record_shaped (entries (JArr 0 [JNum (Fin 5)])))"
    by blast
  then show False
    by (simp add: entries_def record_shaped_def)
qed

text \<open>
  C4, amended: normalization of an input that is not an array is the empty result. For an
  array it skips no entry: when it returns, it has produced one task for each entry,
  record-shaped or not, and when an entry is \<open>null\<close> it does not return but throws.
\<close>

theorem normalizeTasks_one_task_per_entry:
  "(\<not> isArray input \<longrightarrow> normalizeTasks P now input = Inr [])
   \<and> (isArray input \<and> normalizeTasks P now input = Inr out
       \<longrightarrow> length out = length (entries input))
   \<and> (isArray input \<and> JNull \<in> set (entries input) \<longrightarrow> isl (normalizeTasks P now input))"
proof (intro conjI impI)
  assume "\<not> isArray input"
  then show "normalizeTasks P now input = Inr []"
    by (simp add: normalizeTasks_def)
next
  assume "isArray input \<and> normalizeTasks P now input = Inr out"
  then have "map_indexed (normalizeTask P now) 0 (entries input) = Inr out"
    by (auto simp: normalizeTasks_def)
  then show "length out = length (entries input)"
    by (rule map_indexed_length)
next
  assume h: "isArray input \<and> JNull \<in> set (entries input)"
  then have "isl (map_indexed (normalizeTask P now) 0 (entries input))"
    by (intro map_indexed_fails[of JNull]) (simp_all add: normalizeTask_null)
  with h show "isl (normalizeTasks P now input)"
    by (simp add: normalizeTasks_def)
qed

theorem normalizeTasks_one_task_per_entry_witness:
  "\<forall>P. normalizeTasks P 1700000000000 (JObj 0 [(''id'', JStr ''a'')]) = Inr []
     \<and> normalizeTasks P 1700000000000 (JArr 0 [JNum (Fin 5)])
         = Inr [\<lparr> t_id = JUndefined, t_title = JUndefined, t_revenue = NaN,
                   t_timeTaken = Fin 1, t_priority = JUndefined, t_status = JUndefined,
                   t_notes = JUndefined, t_createdAt = toISOString P 1699913600000,
                   t_completedAt = JUndefined \<rparr>]
     \<and> length [\<lparr> t_id = JUndefined, t_title = JUndefined, t_revenue = NaN,
                   t_timeTaken = Fin 1, t_priority = JUndefined, t_status = JUndefined,
                   t_notes = JUndefined, t_createdAt = toISOString P 1699913600000,
                   t_completedAt = JUndefined \<rparr>] = length [JNum (Fin 5)]
     \<and> isl (normalizeTasks P 1700000000000 (JArr 0 [JObj 1 [(''id'', JStr ''a'')], JNull]))"
proof
  fix P :: platform
  from normalizeTasks_one_task_per_entry[of "JObj 0 [(''id'', JStr ''a'')]" P 1700000000000]
  have a: "normalizeTasks P 1700000000000 (JObj 0 [(''id'', JStr ''a'')]) = Inr []"
    by (simp add: isArray_def)
  from normalizeTasks_one_task_per_entry[of "JArr 0 [JNum (Fin 5)]" P 1700000000000
      "[\<lparr> t_id = JUndefined, t_title = JUndefined, t_revenue = NaN,
                   t_timeTaken = Fin 1, t_priority = JUndefined, t_status = JUndefined,
                   t_notes = JUndefined, t_createdAt = toISOString P 1699913600000,
                   t_completedAt = JUndefined \<rparr>]"]
    normalizeTasks_number_entry[of P]
  have b: "length [\<lparr> t_id = JUndefined, t_title = JUndefined, t_revenue = NaN,
                   t_timeTaken = Fin 1, t_priority = JUndefined, t_status = JUndefined,
                   t_notes = JUndefined, t_createdAt = toISOString P 1699913600000,
                   t_completedAt = JUndefined \<rparr>] = length [JNum (Fin 5)]"
    by (simp add: isArray_def entries_def)
  from normalizeTasks_one_task_per_entry[of "JArr 0 [JObj 1 [(''id'', JStr ''a'')], JNull]" P
      1700000000000]
  have c: "isl (normalizeTasks P 1700000000000 (JArr 0 [JObj 1 [(''id'', JStr ''a'')], JNull]))"
    by (simp add: isArray_def entries_def)
  from a b c normalizeTasks_number_entry[of P]
  show "normalizeTasks P 1700000000000 (JObj 0 [(''id'', JStr ''a'')]) = Inr []
     \<and> normalizeTasks P 1700000000000 (JArr 0 [JNum (Fin 5)])
         = Inr [\<lparr> t_id = JUndefined, t_title = JUndefined, t_revenue = NaN,
                   t_timeTaken = Fin 1, t_priority = JUndefined, t_status = JUndefined,
                   t_notes = JUndefined, t_createdAt = toISOString P 1699913600000,
                   t_completedAt = JUndefined \<rparr>]
     \<and> length [\<lparr> t_id = JUndefined, t_title = JUndefined, t_revenue = NaN,
                   t_timeTaken = Fin 1, t_priority = JUndefined, t_status = JUndefined,
                   t_notes = JUndefined, t_createdAt = toISOString P 1699913600000,
                   t_completedAt = JUndefined \<rparr>] = length [JNum (Fin 5)]
     \<and> isl (normalizeTasks P 1700000000000 (JArr 0 [JObj 1 [(''id'', JStr ''a'')], JNull]))"
    by simp
qed

end
